theory Spec2Isabelle
  imports Complex_Main
begin

section \<open>Crisis detection and safety service\<close>

text \<open>
  A shallow embedding of \<^verbatim>\<open>backend/services/crisis_service.py\<close>
  (class \<^verbatim>\<open>CrisisDetectionService\<close>). Python's \<^verbatim>\<open>float\<close> is read as
  \<^typ>\<open>real\<close>: sums, products and comparisons are exact. Strings are
  \<^typ>\<open>string\<close>, each \<^typ>\<open>char\<close> standing for a code point below 256:
  \<^verbatim>\<open>str.lower\<close> moves the letters A to Z and the capital letters from 192 to
  222 (215, the multiplication sign, is no letter), and \<^verbatim>\<open>str.strip\<close>
  removes the code points for which \<^verbatim>\<open>str.isspace\<close> holds. Content with
  code points from 256 on is outside the model. The field \<^verbatim>\<open>assessment_timestamp\<close>
  and the log lines are left out: no function below reads them.
\<close>

subsection \<open>Enumerations and records\<close>

datatype CrisisLevel = NONE | LOW | MEDIUM | HIGH | CRITICAL

datatype RiskFactor =
    SUICIDAL_IDEATION | SELF_HARM | SUBSTANCE_ABUSE | ISOLATION | HOPELESSNESS
  | DEPRESSION | ANXIETY | TRAUMA | RELATIONSHIP_ISSUES | FINANCIAL_STRESS

text \<open>
  The field \<^verbatim>\<open>keywords\<close> of a pattern is \<open>keywords_of\<close> here, the word
  being reserved; the catalog \<^verbatim>\<open>self.safety_resources\<close> is
  \<open>safety_resource_catalog\<close>, to keep it apart from the field of an assessment.
\<close>

record CrisisKeywordPattern =
  keywords_of :: "string list"
  risk_factor :: RiskFactor
  severity_weight :: real
  requires_immediate_action :: bool
  context_modifiers :: "string list"

record SafetyResource =
  sr_name :: string
  sr_type :: string
  sr_contact :: string
  sr_availability :: string
  sr_description :: string
  sr_country_code :: string
  sr_language :: string
  is_emergency :: bool

text \<open>The dictionary built for each resource handed out in an assessment.\<close>

record resource_dict =
  rd_name :: string
  rd_type :: string
  rd_contact :: string
  rd_description :: string
  rd_availability :: string

record RiskAssessment =
  user_id :: string
  trigger_content :: string
  crisis_level :: CrisisLevel
  risk_score :: real
  detected_factors :: "RiskFactor list"
  confidence :: real
  immediate_action_required :: bool
  recommended_interventions :: "string list"
  safety_resources :: "resource_dict list"
  escalation_needed :: bool

subsection \<open>String primitives of the host language\<close>

text \<open>\<^verbatim>\<open>needle in haystack\<close> on strings: the needle occurs as a contiguous run.\<close>

primrec starts_with :: "string \<Rightarrow> string \<Rightarrow> bool" where
  "starts_with [] k = (k = [])"
| "starts_with (c # cs) k = (case k of [] \<Rightarrow> True | d # ds \<Rightarrow> c = d \<and> starts_with cs ds)"

primrec str_in :: "string \<Rightarrow> string \<Rightarrow> bool" where
  "str_in k [] = (k = [])"
| "str_in k (c # cs) = (starts_with (c # cs) k \<or> str_in k cs)"

definition lower_char :: "char \<Rightarrow> char" where
  "lower_char c =
     (let n = (of_char c :: nat)
      in if (65 \<le> n \<and> n \<le> 90) \<or> (192 \<le> n \<and> n \<le> 222 \<and> n \<noteq> 215)
         then char_of (n + 32) else c)"

definition lower :: "string \<Rightarrow> string" where
  "lower s = map lower_char s"

definition is_space :: "char \<Rightarrow> bool" where
  "is_space c = ((of_char c :: nat) \<in> {9, 10, 11, 12, 13, 28, 29, 30, 31, 32, 133, 160})"

definition strip :: "string \<Rightarrow> string" where
  "strip s = rev (dropWhile is_space (rev (dropWhile is_space s)))"

subsection \<open>The pattern catalog\<close>

definition crisis_patterns :: "CrisisKeywordPattern list" where
  "crisis_patterns = [
     \<lparr> keywords_of = [''suicide'', ''kill myself'', ''end my life'', ''want to die'',
                       ''better off dead'', ''not worth living'', ''take my own life'',
                       ''end it all'', ''don't want to be here'', ''world without me''],
       risk_factor = SUICIDAL_IDEATION,
       severity_weight = 1.0,
       requires_immediate_action = True,
       context_modifiers = [''plan'', ''method'', ''when'', ''how'', ''tonight'', ''today''] \<rparr>,
     \<lparr> keywords_of = [''hurt myself'', ''cut myself'', ''self harm'', ''self-harm'',
                       ''cutting'', ''burning'', ''hitting myself'', ''punish myself'',
                       ''deserve pain'', ''make it stop''],
       risk_factor = SELF_HARM,
       severity_weight = 0.9,
       requires_immediate_action = True,
       context_modifiers = [] \<rparr>,
     \<lparr> keywords_of = [''hopeless'', ''no point'', ''pointless'', ''give up'', ''can't go on'',
                       ''no future'', ''nothing matters'', ''why bother'', ''no way out'',
                       ''trapped'', ''stuck forever''],
       risk_factor = HOPELESSNESS,
       severity_weight = 0.8,
       requires_immediate_action = False,
       context_modifiers = [''always'', ''never'', ''forever'', ''everyone'', ''nothing''] \<rparr>,
     \<lparr> keywords_of = [''want to disappear'', ''invisible'', ''burden to everyone'',
                       ''everyone hates me'', ''worthless'', ''useless'', ''failure'',
                       ''can't do anything right'', ''ruined everything''],
       risk_factor = DEPRESSION,
       severity_weight = 0.7,
       requires_immediate_action = False,
       context_modifiers = [] \<rparr>,
     \<lparr> keywords_of = [''drinking too much'', ''can't stop drinking'', ''need drugs'',
                       ''overdose'', ''too many pills'', ''using again'', ''relapsed'',
                       ''out of control'', ''addiction''],
       risk_factor = SUBSTANCE_ABUSE,
       severity_weight = 0.6,
       requires_immediate_action = False,
       context_modifiers = [] \<rparr>,
     \<lparr> keywords_of = [''nobody cares'', ''all alone'', ''no friends'', ''isolated'',
                       ''pushing everyone away'', ''can't talk to anyone'',
                       ''no one understands'', ''abandoned''],
       risk_factor = ISOLATION,
       severity_weight = 0.5,
       requires_immediate_action = False,
       context_modifiers = [] \<rparr>,
     \<lparr> keywords_of = [''flashbacks'', ''nightmares'', ''can't forget'', ''reliving'',
                       ''traumatized'', ''ptsd'', ''triggered'', ''memories won't stop''],
       risk_factor = TRAUMA,
       severity_weight = 0.6,
       requires_immediate_action = False,
       context_modifiers = [] \<rparr> ]"

subsection \<open>Pattern evaluation\<close>

text \<open>
  The first loop of \<^verbatim>\<open>_evaluate_pattern\<close>: the pair is
  \<^verbatim>\<open>(keyword_matches, score)\<close>, updated once for every keyword that occurs.
\<close>

fun keyword_loop :: "string \<Rightarrow> real \<Rightarrow> string list \<Rightarrow> nat \<times> real \<Rightarrow> nat \<times> real" where
  "keyword_loop content w [] acc = acc"
| "keyword_loop content w (keyword # rest) (keyword_matches, score) =
     (if str_in keyword content
      then keyword_loop content w rest (keyword_matches + 1, score + w * 0.3)
      else keyword_loop content w rest (keyword_matches, score))"

text \<open>The second loop: \<^verbatim>\<open>context_bonus\<close>.\<close>

fun modifier_loop :: "string \<Rightarrow> string list \<Rightarrow> real \<Rightarrow> real" where
  "modifier_loop content [] context_bonus = context_bonus"
| "modifier_loop content (modifier # rest) context_bonus =
     (if str_in modifier content
      then modifier_loop content rest (context_bonus + 0.1)
      else modifier_loop content rest context_bonus)"

definition negation_patterns :: "string list" where
  "negation_patterns = [''not'', ''don't'', ''won't'', ''never'', ''wouldn't'']"

definition negation_found :: "string \<Rightarrow> bool" where
  "negation_found content = list_ex (\<lambda>neg. str_in neg content) negation_patterns"

text \<open>
  The score of \<^verbatim>\<open>_evaluate_pattern\<close> on the line before the negation
  check: keyword scores, the bonus for several keywords and the capped context bonus.
\<close>

definition score_before_negation :: "string \<Rightarrow> CrisisKeywordPattern \<Rightarrow> real" where
  "score_before_negation content pattern =
     (let (keyword_matches, score) =
            keyword_loop content (severity_weight pattern) (keywords_of pattern) (0, 0.0);
          score = (if keyword_matches > 1 then score + severity_weight pattern * 0.2 else score);
          context_bonus = modifier_loop content (context_modifiers pattern) 0.0
      in score + min context_bonus (severity_weight pattern * 0.3))"

definition evaluate_pattern :: "string \<Rightarrow> CrisisKeywordPattern \<Rightarrow> real" where
  "evaluate_pattern content pattern =
     (if fst (keyword_loop content (severity_weight pattern) (keywords_of pattern) (0, 0.0)) = 0
      then 0.0
      else let score = score_before_negation content pattern;
               score = (if negation_found content then score * 0.7 else score)
           in min score 1.0)"

subsection \<open>Crisis level\<close>

definition determine_crisis_level :: "real \<Rightarrow> RiskFactor list \<Rightarrow> CrisisLevel" where
  "determine_crisis_level risk detected =
     (if SUICIDAL_IDEATION \<in> set detected \<and> risk > 0.8 then CRITICAL
      else if risk > 0.7 \<or> SUICIDAL_IDEATION \<in> set detected \<or> SELF_HARM \<in> set detected
              \<or> (HOPELESSNESS \<in> set detected \<and> risk > 0.6) then HIGH
      else if risk > 0.4 \<or> length detected \<ge> 2 \<or> HOPELESSNESS \<in> set detected then MEDIUM
      else if risk > 0.2 \<or> length detected \<ge> 1 then LOW
      else NONE)"

subsection \<open>Confidence\<close>

definition clear_indicators :: "string list" where
  "clear_indicators = [''i want to'', ''i am going to'', ''i plan to'', ''i will'']"

definition calculate_confidence :: "string \<Rightarrow> RiskFactor list \<Rightarrow> real \<Rightarrow> real" where
  "calculate_confidence content detected risk =
     (let confidence = 0.5;
          confidence = (if length (strip content) > 50 then confidence + 0.1 else confidence);
          confidence = (if length (strip content) > 100 then confidence + 0.1 else confidence);
          confidence = confidence + min (real (length detected) * 0.15) 0.3;
          confidence = confidence + risk * 0.2;
          confidence = (if list_ex (\<lambda>indicator. str_in indicator (lower content)) clear_indicators
                        then confidence + 0.2 else confidence)
      in min confidence 1.0)"

subsection \<open>Recommendations\<close>

definition generate_interventions :: "CrisisLevel \<Rightarrow> RiskFactor list \<Rightarrow> string list" where
  "generate_interventions level detected =
     (let interventions = [];
          interventions =
            (if level = CRITICAL then interventions @
               [''Immediate professional intervention required'',
                ''Contact emergency services (911) if in immediate danger'',
                ''Call 988 Suicide & Crisis Lifeline immediately'',
                ''Do not leave person alone'',
                ''Remove any means of self-harm'']
             else if level = HIGH then interventions @
               [''Contact crisis support immediately: 988'',
                ''Reach out to a trusted person'',
                ''Consider emergency room if feeling unsafe'',
                ''Remove access to means of harm'',
                ''Create safety plan'']
             else if level = MEDIUM then interventions @
               [''Connect with mental health professional'',
                ''Use crisis text line: Text HOME to 741741'',
                ''Practice grounding techniques'',
                ''Reach out to support network'',
                ''Schedule therapy appointment'']
             else if level = LOW then interventions @
               [''Monitor mood closely'',
                ''Practice self-care activities'',
                ''Consider counseling'',
                ''Use stress reduction techniques'',
                ''Stay connected with others'']
             else interventions);
          interventions =
            (if ISOLATION \<in> set detected
             then interventions @ [''Focus on social connection and support''] else interventions);
          interventions =
            (if SUBSTANCE_ABUSE \<in> set detected
             then interventions @ [''Consider addiction treatment resources''] else interventions);
          interventions =
            (if TRAUMA \<in> set detected
             then interventions @ [''Seek trauma-informed therapy''] else interventions)
      in take 5 interventions)"

definition mk_resource ::
  "string \<Rightarrow> string \<Rightarrow> string \<Rightarrow> string \<Rightarrow> string \<Rightarrow> string \<Rightarrow> bool \<Rightarrow> SafetyResource" where
  "mk_resource n t c a d cc e =
     \<lparr> sr_name = n, sr_type = t, sr_contact = c, sr_availability = a, sr_description = d,
       sr_country_code = cc, sr_language = ''en'', is_emergency = e \<rparr>"

definition safety_resource_catalog :: "SafetyResource list" where
  "safety_resource_catalog = [
     mk_resource ''988 Suicide & Crisis Lifeline'' ''hotline'' ''988'' ''24/7''
       ''Free, confidential crisis counseling'' ''US'' True,
     mk_resource ''Crisis Text Line'' ''text'' ''Text HOME to 741741'' ''24/7''
       ''Crisis counseling via text'' ''US'' True,
     mk_resource ''Samaritans'' ''hotline'' ''116 123'' ''24/7''
       ''Free support for emotional distress'' ''UK'' True,
     mk_resource ''Psychology Today Therapist Finder'' ''website''
       ''https://www.psychologytoday.com/us/therapists'' ''24/7 online''
       ''Find mental health professionals near you'' ''US'' False,
     mk_resource ''BetterHelp Online Therapy'' ''website'' ''https://www.betterhelp.com''
       ''24/7 online'' ''Professional online counseling'' ''US'' False,
     mk_resource ''National Suicide Prevention Lifeline'' ''website''
       ''https://suicidepreventionlifeline.org'' ''24/7 online''
       ''Resources and support information'' ''US'' False,
     mk_resource ''Mind (UK)'' ''website'' ''https://www.mind.org.uk'' ''24/7 online''
       ''Mental health information and support'' ''UK'' False,
     mk_resource ''MY3 Support Network App'' ''app'' ''Download from app store''
       ''Always available'' ''Create personal safety plan'' ''US'' False,
     mk_resource ''Safety Plan App'' ''app'' ''Download from app store''
       ''Always available'' ''Evidence-based safety planning'' ''US'' False ]"

definition to_dict :: "SafetyResource \<Rightarrow> resource_dict" where
  "to_dict r =
     \<lparr> rd_name = sr_name r, rd_type = sr_type r, rd_contact = sr_contact r,
       rd_description = sr_description r, rd_availability = sr_availability r \<rparr>"

definition get_relevant_resources :: "CrisisLevel \<Rightarrow> RiskFactor list \<Rightarrow> resource_dict list" where
  "get_relevant_resources level detected =
     (let resources = [];
          resources =
            (if level \<noteq> NONE \<and> level \<noteq> LOW
             then resources @ map to_dict (take 3 (filter is_emergency safety_resource_catalog))
             else resources)
      in resources
           @ map to_dict (take 2 (filter (\<lambda>r. \<not> is_emergency r) safety_resource_catalog)))"

subsection \<open>The event store, as far as this module sees it\<close>

text \<open>
  The database calls are outside this module. What the module sees is whether a block of
  calls completes or raises, so the environment supplies exactly that: the outcome of the
  \<^verbatim>\<open>try\<close> block of \<^verbatim>\<open>_store_crisis_event\<close> (\<^verbatim>\<open>int(user_id)\<close>,
  the event constructor, \<^verbatim>\<open>add\<close>, \<^verbatim>\<open>commit\<close>), of the
  \<^verbatim>\<open>try\<close> block of \<^verbatim>\<open>_update_crisis_event_escalation\<close>, and of
  \<^verbatim>\<open>db.session.rollback()\<close>, which both handlers call outside any
  \<^verbatim>\<open>try\<close>. A raised exception is represented by its message.
\<close>

datatype outcome = Completes | Raises string

record environment =
  store_try :: "string \<Rightarrow> outcome"
  update_try :: "string \<Rightarrow> outcome"
  rollback :: outcome
  utcnow_isoformat :: string

text \<open>
  Both store functions have the shape
  \<^verbatim>\<open>try: body  except Exception: logger.error(...); db.session.rollback()\<close>:
  an exception of the body is swallowed, one of the rollback leaves the function.
\<close>

definition run_guarded :: "outcome \<Rightarrow> environment \<Rightarrow> string + unit" where
  "run_guarded body env =
     (case body of
        Completes \<Rightarrow> Inr ()
      | Raises e \<Rightarrow> (case rollback env of Completes \<Rightarrow> Inr () | Raises e' \<Rightarrow> Inl e'))"

definition store_crisis_event :: "environment \<Rightarrow> RiskAssessment \<Rightarrow> string + unit" where
  "store_crisis_event env assessment = run_guarded (store_try env (user_id assessment)) env"

definition update_crisis_event_escalation :: "environment \<Rightarrow> string \<Rightarrow> string + unit" where
  "update_crisis_event_escalation env uid = run_guarded (update_try env uid) env"

text \<open>\<^verbatim>\<open>try: body  except Exception as e: handler(e)\<close>\<close>

definition try_except :: "string + 'a \<Rightarrow> (string \<Rightarrow> string + 'a) \<Rightarrow> string + 'a" where
  "try_except body handler = (case body of Inl e \<Rightarrow> handler e | Inr v \<Rightarrow> Inr v)"

subsection \<open>Assessment\<close>

definition create_safe_default_assessment :: "string \<Rightarrow> string \<Rightarrow> RiskAssessment" where
  "create_safe_default_assessment uid content =
     \<lparr> user_id = uid,
       trigger_content = content,
       crisis_level = NONE,
       risk_score = 0.0,
       detected_factors = [],
       confidence = 0.0,
       immediate_action_required = False,
       recommended_interventions = [''Contact support if you need help''],
       safety_resources =
         [\<lparr> rd_name = ''988 Suicide & Crisis Lifeline'', rd_type = ''hotline'',
            rd_contact = ''988'', rd_description = ''24/7 crisis support'',
            rd_availability = ''24/7'' \<rparr>],
       escalation_needed = False \<rparr>"

text \<open>
  The loop over the catalog in \<^verbatim>\<open>assess_crisis_risk\<close>; the state is
  \<^verbatim>\<open>(detected_factors, risk_score, immediate_action)\<close>.
\<close>

fun pattern_loop ::
  "string \<Rightarrow> CrisisKeywordPattern list \<Rightarrow> RiskFactor list \<times> real \<times> bool
     \<Rightarrow> RiskFactor list \<times> real \<times> bool" where
  "pattern_loop content_lower [] st = st"
| "pattern_loop content_lower (pattern # rest) (detected, risk, immediate_action) =
     (let pattern_score = evaluate_pattern content_lower pattern
      in if pattern_score > 0
         then pattern_loop content_lower rest
                (detected @ [risk_factor pattern], risk + pattern_score,
                 (if requires_immediate_action pattern \<and> pattern_score > 0.7
                  then True else immediate_action))
         else pattern_loop content_lower rest (detected, risk, immediate_action))"

definition assess_body :: "environment \<Rightarrow> string \<Rightarrow> string \<Rightarrow> string + RiskAssessment" where
  "assess_body env uid content =
     (let content_lower = lower content;
          (detected, risk, immediate_action) =
             pattern_loop content_lower crisis_patterns ([], 0.0, False);
          risk = min risk 1.0;
          level = determine_crisis_level risk detected;
          conf = calculate_confidence content detected risk;
          interventions = generate_interventions level detected;
          resources = get_relevant_resources level detected;
          escalation = (level \<in> {HIGH, CRITICAL} \<or> immediate_action \<or> risk > 0.8);
          assessment =
            \<lparr> user_id = uid, trigger_content = content, crisis_level = level,
              risk_score = risk, detected_factors = detected, confidence = conf,
              immediate_action_required = immediate_action,
              recommended_interventions = interventions, safety_resources = resources,
              escalation_needed = escalation \<rparr>
      in if level \<noteq> NONE
         then (case store_crisis_event env assessment of
                 Inl e \<Rightarrow> Inl e
               | Inr _ \<Rightarrow> Inr assessment)
         else Inr assessment)"

definition assess_crisis_risk :: "environment \<Rightarrow> string \<Rightarrow> string \<Rightarrow> string + RiskAssessment" where
  "assess_crisis_risk env uid content =
     try_except (assess_body env uid content)
       (\<lambda>e. Inr (create_safe_default_assessment uid content))"

subsection \<open>Escalation\<close>

datatype pyval = PyBool bool | PyStr string | PyList "string list"

type_synonym pydict = "(string \<times> pyval) list"

definition dict_get :: "pydict \<Rightarrow> string \<Rightarrow> pyval option" where
  "dict_get d k = map_of d k"

definition escalate_body :: "environment \<Rightarrow> RiskAssessment \<Rightarrow> string \<Rightarrow> string + pydict" where
  "escalate_body env assessment escalation_type =
     (let actions_taken = [];
          next_steps = [];
          (actions_taken, next_steps) =
            (if crisis_level assessment = CRITICAL then
               (actions_taken @
                  [''Crisis team notified immediately'',
                   ''Emergency contact attempted'',
                   ''Professional intervention initiated'',
                   ''User flagged for immediate follow-up''],
                next_steps @
                  [''Emergency services may be contacted'',
                   ''Immediate professional assessment scheduled'',
                   ''Family/emergency contacts will be notified''])
             else if crisis_level assessment = HIGH then
               (actions_taken @
                  [''Mental health professional notified'',
                   ''Crisis counselor assigned'',
                   ''Enhanced monitoring activated''],
                next_steps @
                  [''Professional will contact within 2 hours'',
                   ''Safety plan development scheduled'',
                   ''Follow-up appointment arranged''])
             else (actions_taken, next_steps));
          escalation_result =
            [(''escalated'', PyBool True),
             (''timestamp'', PyStr (utcnow_isoformat env)),
             (''escalation_type'', PyStr escalation_type),
             (''actions_taken'', PyList actions_taken),
             (''next_steps'', PyList next_steps)]
      in case update_crisis_event_escalation env (user_id assessment) of
           Inl e \<Rightarrow> Inl e
         | Inr _ \<Rightarrow> Inr escalation_result)"

definition escalate_crisis :: "environment \<Rightarrow> RiskAssessment \<Rightarrow> string \<Rightarrow> string + pydict" where
  "escalate_crisis env assessment escalation_type =
     try_except (escalate_body env assessment escalation_type)
       (\<lambda>e. Inr [(''escalated'', PyBool False), (''error'', PyStr e)])"

subsection \<open>The specification's tables, for comparison with the code\<close>

text \<open>
  The crisis-level decision table as the specification prints it: rows of a condition and
  a level, read from the top, the first row whose condition holds giving the level.
\<close>

definition spec_decision_table :: "((real \<Rightarrow> RiskFactor list \<Rightarrow> bool) \<times> CrisisLevel) list" where
  "spec_decision_table = [
     (\<lambda>risk fs. SUICIDAL_IDEATION \<in> set fs \<and> risk > 0.8, CRITICAL),
     (\<lambda>risk fs. risk > 0.7 \<or> SUICIDAL_IDEATION \<in> set fs \<or> SELF_HARM \<in> set fs
                 \<or> (HOPELESSNESS \<in> set fs \<and> risk > 0.6), HIGH),
     (\<lambda>risk fs. risk > 0.4 \<or> length fs \<ge> 2 \<or> HOPELESSNESS \<in> set fs, MEDIUM),
     (\<lambda>risk fs. risk > 0.2 \<or> length fs \<ge> 1, LOW),
     (\<lambda>risk fs. True, NONE) ]"

fun first_match ::
  "((real \<Rightarrow> RiskFactor list \<Rightarrow> bool) \<times> CrisisLevel) list \<Rightarrow> real \<Rightarrow> RiskFactor list
     \<Rightarrow> CrisisLevel option" where
  "first_match [] risk fs = None"
| "first_match ((cond, level) # rows) risk fs =
     (if cond risk fs then Some level else first_match rows risk fs)"

text \<open>
  The recommendation lists as the specification describes them: a base list for each
  level and the additions for the factors ISOLATION, SUBSTANCE_ABUSE and TRAUMA.
\<close>

fun spec_base_list :: "CrisisLevel \<Rightarrow> string list" where
  "spec_base_list CRITICAL =
     [''Immediate professional intervention required'',
      ''Contact emergency services (911) if in immediate danger'',
      ''Call 988 Suicide & Crisis Lifeline immediately'',
      ''Do not leave person alone'',
      ''Remove any means of self-harm'']"
| "spec_base_list HIGH =
     [''Contact crisis support immediately: 988'',
      ''Reach out to a trusted person'',
      ''Consider emergency room if feeling unsafe'',
      ''Remove access to means of harm'',
      ''Create safety plan'']"
| "spec_base_list MEDIUM =
     [''Connect with mental health professional'',
      ''Use crisis text line: Text HOME to 741741'',
      ''Practice grounding techniques'',
      ''Reach out to support network'',
      ''Schedule therapy appointment'']"
| "spec_base_list LOW =
     [''Monitor mood closely'',
      ''Practice self-care activities'',
      ''Consider counseling'',
      ''Use stress reduction techniques'',
      ''Stay connected with others'']"
| "spec_base_list NONE = []"

definition spec_factor_additions :: "RiskFactor list \<Rightarrow> string list" where
  "spec_factor_additions fs =
     concat (map (\<lambda>(f, text). if f \<in> set fs then [text] else [])
       [(ISOLATION, ''Focus on social connection and support''),
        (SUBSTANCE_ABUSE, ''Consider addiction treatment resources''),
        (TRAUMA, ''Seek trauma-informed therapy'')])"

subsection \<open>Notions used to state the properties\<close>

text \<open>How many keywords of a list occur in the content.\<close>

definition match_count :: "string \<Rightarrow> string list \<Rightarrow> nat" where
  "match_count content ks = length (filter (\<lambda>k. str_in k content) ks)"

text \<open>
  Two contents are alike for a pattern when each keyword and each context modifier of
  the pattern occurs in both or in neither.
\<close>

definition same_matches :: "CrisisKeywordPattern \<Rightarrow> string \<Rightarrow> string \<Rightarrow> bool" where
  "same_matches p c c' =
     (map (\<lambda>k. str_in k c) (keywords_of p) = map (\<lambda>k. str_in k c') (keywords_of p)
      \<and> map (\<lambda>m. str_in m c) (context_modifiers p) = map (\<lambda>m. str_in m c') (context_modifiers p))"

text \<open>A store that accepts every write, and one that is down: every call raises.\<close>

definition store_up :: environment where
  "store_up =
     \<lparr> store_try = (\<lambda>uid. Completes), update_try = (\<lambda>uid. Completes),
       rollback = Completes, utcnow_isoformat = ''2024-01-01T00:00:00'' \<rparr>"

definition store_down :: environment where
  "store_down =
     \<lparr> store_try = (\<lambda>uid. Raises ''write failed''), update_try = (\<lambda>uid. Raises ''read failed''),
       rollback = Raises ''connection lost'', utcnow_isoformat = ''2024-01-01T00:00:00'' \<rparr>"

text \<open>The HIGH assessment that the repository's escalation test builds.\<close>

definition high_assessment :: RiskAssessment where
  "high_assessment =
     \<lparr> user_id = ''test_user_123'', trigger_content = ''I want to kill myself'',
       crisis_level = HIGH, risk_score = 0.9, detected_factors = [SUICIDAL_IDEATION],
       confidence = 0.95, immediate_action_required = True,
       recommended_interventions = [''Contact crisis support''], safety_resources = [],
       escalation_needed = True \<rparr>"

subsection \<open>Crisis level: the code against the decision table\<close>

text \<open>
  C1. For every risk score (in particular every one in [0,1]) and every list of detected
  factors, the level returned by \<^verbatim>\<open>_determine_crisis_level\<close> is the level of the
  first row of the specification's decision table whose condition holds: CRITICAL, else
  HIGH, else MEDIUM, else LOW, else NONE, with the conditions of the table.
\<close>

theorem determine_crisis_level_is_table:
  "first_match spec_decision_table risk fs = Some (determine_crisis_level risk fs)"
  by (simp add: spec_decision_table_def determine_crisis_level_def)

theorem determine_crisis_level_is_table_witness:
  "first_match spec_decision_table 0.65 [HOPELESSNESS] = Some HIGH
   \<and> determine_crisis_level 0.65 [HOPELESSNESS] = HIGH"
  using determine_crisis_level_is_table [of "0.65" "[HOPELESSNESS]"]
  by (simp add: determine_crisis_level_def)

subsection \<open>Recommended interventions\<close>

lemma length_spec_base_list: "length (spec_base_list level) \<le> 5"
  by (cases level) simp_all

text \<open>
  C7. For every crisis level and every list of detected factors, the recommended
  interventions are at most 5, they are the first 5 elements of the level's base list
  followed by the factor-specific additions, and the base list comes first whole: the
  truncation only ever removes additions.
\<close>

theorem generate_interventions_first_five:
  "length (generate_interventions level fs) \<le> 5
   \<and> generate_interventions level fs = take 5 (spec_base_list level @ spec_factor_additions fs)
   \<and> take (length (spec_base_list level)) (generate_interventions level fs) = spec_base_list level"
proof -
  have eq: "generate_interventions level fs
              = take 5 (spec_base_list level @ spec_factor_additions fs)"
    by (cases level) (simp_all add: generate_interventions_def spec_factor_additions_def Let_def)
  have pre: "take (length (spec_base_list level))
               (take 5 (spec_base_list level @ spec_factor_additions fs)) = spec_base_list level"
    using length_spec_base_list [of level] by (simp add: min_def)
  show ?thesis
    using eq pre by simp
qed

theorem generate_interventions_first_five_witness:
  "generate_interventions NONE [TRAUMA, ISOLATION]
     = [''Focus on social connection and support'', ''Seek trauma-informed therapy'']
   \<and> generate_interventions LOW [TRAUMA, ISOLATION] = spec_base_list LOW"
  using generate_interventions_first_five [of NONE "[TRAUMA, ISOLATION]"]
        generate_interventions_first_five [of LOW "[TRAUMA, ISOLATION]"]
  by (simp add: spec_factor_additions_def)

subsection \<open>Confidence\<close>

text \<open>
  C8. With the content fixed, the confidence does not decrease when the number of
  detected factors grows or when the risk score grows, and it never exceeds 1.0.
\<close>

theorem calculate_confidence_monotone:
  assumes "length fs \<le> length fs'" and "risk \<le> risk'"
  shows "calculate_confidence content fs risk \<le> calculate_confidence content fs' risk'
         \<and> calculate_confidence content fs' risk' \<le> 1"
proof -
  have n: "min (real (length fs) * 0.15) 0.3 \<le> min (real (length fs') * 0.15) 0.3"
    using assms(1) by (simp add: min_def)
  have r: "risk * 0.2 \<le> risk' * 0.2"
    using assms(2) by simp
  show ?thesis
    unfolding calculate_confidence_def Let_def
    using n r by (auto simp: min_def)
qed

theorem calculate_confidence_monotone_witness:
  "length [DEPRESSION] \<le> length [DEPRESSION, ISOLATION] \<and> (0.2::real) \<le> 0.7
   \<and> calculate_confidence ''i feel stuck'' [DEPRESSION] 0.2
     \<le> calculate_confidence ''i feel stuck'' [DEPRESSION, ISOLATION] 0.7
   \<and> calculate_confidence ''i feel stuck'' [DEPRESSION, ISOLATION] 0.7 \<le> 1"
  using calculate_confidence_monotone
          [of "[DEPRESSION]" "[DEPRESSION, ISOLATION]" "0.2" "0.7" "''i feel stuck''"]
  by simp

subsection \<open>Pattern scores\<close>

lemma keyword_loop_count:
  "keyword_loop content w ks (m, s)
     = (m + match_count content ks, s + real (match_count content ks) * (w * 0.3))"
  by (induction ks arbitrary: m s) (simp_all add: match_count_def algebra_simps)

lemma modifier_loop_ge: "b \<le> modifier_loop content ms b"
proof (induction ms arbitrary: b)
  case Nil
  then show ?case by simp
next
  case (Cons m ms)
  have "b \<le> b + 0.1" by simp
  also have "\<dots> \<le> modifier_loop content ms (b + 0.1)" by (rule Cons.IH)
  finally have "b \<le> modifier_loop content ms (b + 0.1)" .
  with Cons.IH [of b] show ?case by simp
qed

lemma score_before_negation_one:
  assumes "match_count content (keywords_of p) = 1"
  shows "score_before_negation content p
           = severity_weight p * 0.3
             + min (modifier_loop content (context_modifiers p) 0) (severity_weight p * 0.3)"
  using assms by (simp add: score_before_negation_def keyword_loop_count)

lemma evaluate_pattern_no_match:
  "match_count content (keywords_of p) = 0 \<Longrightarrow> evaluate_pattern content p = 0"
  by (simp add: evaluate_pattern_def keyword_loop_count)

lemma evaluate_pattern_nonneg:
  assumes "0 \<le> severity_weight p"
  shows "0 \<le> evaluate_pattern content p"
proof -
  have b: "0 \<le> modifier_loop content (context_modifiers p) 0" by (rule modifier_loop_ge)
  have "0 \<le> score_before_negation content p"
    using assms b by (simp add: score_before_negation_def keyword_loop_count Let_def)
  then show ?thesis
    by (simp add: evaluate_pattern_def Let_def)
qed

lemma evaluate_pattern_le_1: "evaluate_pattern content p \<le> 1"
  by (simp add: evaluate_pattern_def Let_def)

lemma catalog_weights:
  "p \<in> set crisis_patterns \<Longrightarrow> 0 < severity_weight p \<and> severity_weight p \<le> 1"
  by (auto simp: crisis_patterns_def)

lemma keyword_loop_cong:
  "map (\<lambda>k. str_in k c) ks = map (\<lambda>k. str_in k c') ks
     \<Longrightarrow> keyword_loop c w ks acc = keyword_loop c' w ks acc"
proof (induction ks arbitrary: acc)
  case Nil
  then show ?case by simp
next
  case (Cons k ks)
  obtain m s where acc: "acc = (m, s)" by (cases acc)
  from Cons.prems have hd: "str_in k c = str_in k c'"
    and tl: "map (\<lambda>k. str_in k c) ks = map (\<lambda>k. str_in k c') ks" by simp_all
  show ?case
    unfolding acc using hd Cons.IH [OF tl] by simp
qed

lemma modifier_loop_cong:
  "map (\<lambda>m. str_in m c) ms = map (\<lambda>m. str_in m c') ms
     \<Longrightarrow> modifier_loop c ms b = modifier_loop c' ms b"
  by (induction ms arbitrary: b) simp_all

lemma same_matches_score:
  assumes "same_matches p c c'"
  shows "score_before_negation c p = score_before_negation c' p"
    and "match_count c (keywords_of p) = match_count c' (keywords_of p)"
proof -
  from assms have k: "map (\<lambda>k. str_in k c) (keywords_of p) = map (\<lambda>k. str_in k c') (keywords_of p)"
    and m: "map (\<lambda>m. str_in m c) (context_modifiers p) = map (\<lambda>m. str_in m c') (context_modifiers p)"
    by (simp_all add: same_matches_def)
  show "score_before_negation c p = score_before_negation c' p"
    by (simp add: score_before_negation_def keyword_loop_cong [OF k] modifier_loop_cong [OF m])
  have "keyword_loop c 0 (keywords_of p) (0, 0) = keyword_loop c' 0 (keywords_of p) (0, 0)"
    by (rule keyword_loop_cong [OF k])
  then show "match_count c (keywords_of p) = match_count c' (keywords_of p)"
    by (simp add: keyword_loop_count)
qed

lemma evaluate_pattern_one:
  assumes "0 < severity_weight p" and "severity_weight p \<le> 1"
    and "match_count content (keywords_of p) = 1"
  shows "evaluate_pattern content p
           = (if negation_found content then 0.7 * score_before_negation content p
              else score_before_negation content p)"
    and "0 < score_before_negation content p"
    and "score_before_negation content p \<le> 0.6 * severity_weight p"
proof -
  let ?b = "modifier_loop content (context_modifiers p) 0"
  have b: "0 \<le> ?b" by (rule modifier_loop_ge)
  have s: "score_before_negation content p
             = severity_weight p * 0.3 + min ?b (severity_weight p * 0.3)"
    using assms(3) by (rule score_before_negation_one)
  show pos: "0 < score_before_negation content p"
    unfolding s using assms(1) b by (simp add: min_def)
  show le: "score_before_negation content p \<le> 0.6 * severity_weight p"
    unfolding s by (simp add: min_def)
  have le1: "score_before_negation content p \<le> 1"
    using le assms(2) by simp
  have le1': "score_before_negation content p * 0.7 \<le> 1"
    using le1 pos by simp
  show "evaluate_pattern content p
           = (if negation_found content then 0.7 * score_before_negation content p
              else score_before_negation content p)"
    using assms(3) le1 le1'
    by (simp add: evaluate_pattern_def keyword_loop_count Let_def min_def)
qed

text \<open>
  C3, as amended. For every pattern of the catalog and every content, the pattern score
  lies between 0 and 1.0, the clamp of \<^verbatim>\<open>_evaluate_pattern\<close>; it is at most
  the pattern's severity weight whenever at most one keyword of the pattern occurs in
  the content.
\<close>

theorem evaluate_pattern_bounds:
  assumes "p \<in> set crisis_patterns"
  shows "0 \<le> evaluate_pattern content p \<and> evaluate_pattern content p \<le> 1
         \<and> (match_count content (keywords_of p) \<le> 1
              \<longrightarrow> evaluate_pattern content p \<le> severity_weight p)"
proof -
  from catalog_weights [OF assms]
  have w0: "0 < severity_weight p" and w1: "severity_weight p \<le> 1" by simp_all
  have lo: "0 \<le> evaluate_pattern content p"
    using w0 by (simp add: evaluate_pattern_nonneg)
  have one: "evaluate_pattern content p \<le> severity_weight p"
    if "match_count content (keywords_of p) \<le> 1"
  proof (cases "match_count content (keywords_of p) = 0")
    case True
    then show ?thesis using w0 by (simp add: evaluate_pattern_no_match)
  next
    case False
    with that have m: "match_count content (keywords_of p) = 1" by simp
    have "evaluate_pattern content p \<le> score_before_negation content p"
      using evaluate_pattern_one(1,2) [OF w0 w1 m] by simp
    also have "\<dots> \<le> 0.6 * severity_weight p"
      by (rule evaluate_pattern_one(3) [OF w0 w1 m])
    also have "\<dots> \<le> severity_weight p" using w0 by simp
    finally show ?thesis .
  qed
  show ?thesis
    using lo evaluate_pattern_le_1 one by blast
qed

theorem evaluate_pattern_bounds_witness:
  "crisis_patterns ! 1 \<in> set crisis_patterns
   \<and> match_count ''i want to hurt myself'' (keywords_of (crisis_patterns ! 1)) \<le> 1
   \<and> evaluate_pattern ''i want to hurt myself'' (crisis_patterns ! 1) \<le> 0.9"
proof -
  have 1: "crisis_patterns ! 1 \<in> set crisis_patterns"
    by (simp add: crisis_patterns_def)
  have 2: "match_count ''i want to hurt myself'' (keywords_of (crisis_patterns ! 1)) \<le> 1"
    by (simp add: crisis_patterns_def match_count_def)
  have 3: "severity_weight (crisis_patterns ! 1) = 0.9"
    by (simp add: crisis_patterns_def)
  show ?thesis
    using evaluate_pattern_bounds [OF 1, of "''i want to hurt myself''"] 1 2 3 by simp
qed

text \<open>
  C3 as stated fails: three keywords of the SELF_HARM pattern (weight 0.9) score
  \<open>3 * 0.27 + 0.18 = 0.99\<close>, above the weight.
\<close>

theorem severity_weight_exceeded_counterexample:
  "crisis_patterns ! 1 \<in> set crisis_patterns
   \<and> severity_weight (crisis_patterns ! 1) = 0.9
   \<and> evaluate_pattern ''i keep cutting and burning, i hurt myself'' (crisis_patterns ! 1) = 0.99
   \<and> \<not> evaluate_pattern ''i keep cutting and burning, i hurt myself'' (crisis_patterns ! 1)
         \<le> severity_weight (crisis_patterns ! 1)"
  by (simp add: crisis_patterns_def evaluate_pattern_def score_before_negation_def
        negation_found_def negation_patterns_def)

text \<open>
  C4, as amended. For a pattern with weight in (0, 1] (every catalog pattern) and every
  content in which exactly one keyword of the pattern occurs and a negation term occurs:
  the score is 0.7 times the score on the line before the negation check, strictly less
  than that score and strictly positive. Where a content without negation term has the
  same keywords and context modifiers of the pattern occurring, the score before the
  negation check is the score of that content.
\<close>

theorem negation_dampens:
  assumes "0 < severity_weight p" and "severity_weight p \<le> 1"
    and "match_count content (keywords_of p) = 1"
    and "negation_found content"
  shows "evaluate_pattern content p = 0.7 * score_before_negation content p
         \<and> evaluate_pattern content p < score_before_negation content p
         \<and> 0 < evaluate_pattern content p
         \<and> (\<not> negation_found content' \<and> same_matches p content content'
              \<longrightarrow> evaluate_pattern content' p = score_before_negation content p)"
proof -
  have e: "evaluate_pattern content p = 0.7 * score_before_negation content p"
    using evaluate_pattern_one(1) [OF assms(1,2,3)] assms(4) by simp
  have pos: "0 < score_before_negation content p"
    by (rule evaluate_pattern_one(2) [OF assms(1,2,3)])
  have other: "evaluate_pattern content' p = score_before_negation content p"
    if n: "\<not> negation_found content'" and m: "same_matches p content content'"
  proof -
    have c': "match_count content' (keywords_of p) = 1"
      using same_matches_score(2) [OF m] assms(3) by simp
    show ?thesis
      using evaluate_pattern_one(1) [OF assms(1,2) c'] n same_matches_score(1) [OF m]
      by simp
  qed
  show ?thesis
    using e pos other by simp
qed

theorem negation_dampens_witness:
  "match_count ''it is hopeless, it will never get better'' (keywords_of (crisis_patterns ! 2)) = 1
   \<and> negation_found ''it is hopeless, it will never get better''
   \<and> score_before_negation ''it is hopeless, it will never get better'' (crisis_patterns ! 2)
       = 0.34
   \<and> evaluate_pattern ''it is hopeless, it will never get better'' (crisis_patterns ! 2) = 0.238
   \<and> match_count ''i do not want to die tonight'' (keywords_of (crisis_patterns ! 0)) = 1
   \<and> negation_found ''i do not want to die tonight''
   \<and> \<not> negation_found ''i do want to die tonight''
   \<and> same_matches (crisis_patterns ! 0)
         ''i do not want to die tonight'' ''i do want to die tonight''
   \<and> evaluate_pattern ''i do not want to die tonight'' (crisis_patterns ! 0) = 0.28
   \<and> evaluate_pattern ''i do want to die tonight'' (crisis_patterns ! 0) = 0.4"
proof -
  let ?h = "crisis_patterns ! 2"
  let ?p = "crisis_patterns ! 0"
  have h1: "0 < severity_weight ?h" and h2: "severity_weight ?h \<le> 1"
    by (simp_all add: crisis_patterns_def)
  have h3: "match_count ''it is hopeless, it will never get better'' (keywords_of ?h) = 1"
    by (simp add: crisis_patterns_def match_count_def)
  have h4: "negation_found ''it is hopeless, it will never get better''"
    by (simp add: negation_found_def negation_patterns_def)
  have h5: "score_before_negation ''it is hopeless, it will never get better'' ?h = 0.34"
    by (simp add: crisis_patterns_def score_before_negation_def)
  have 1: "0 < severity_weight ?p" and 2: "severity_weight ?p \<le> 1"
    by (simp_all add: crisis_patterns_def)
  have 3: "match_count ''i do not want to die tonight'' (keywords_of ?p) = 1"
    by (simp add: crisis_patterns_def match_count_def)
  have 4: "negation_found ''i do not want to die tonight''"
    by (simp add: negation_found_def negation_patterns_def)
  have 5: "\<not> negation_found ''i do want to die tonight''"
    by (simp add: negation_found_def negation_patterns_def)
  have 6: "same_matches ?p ''i do not want to die tonight'' ''i do want to die tonight''"
    by (simp add: crisis_patterns_def same_matches_def)
  have 7: "score_before_negation ''i do not want to die tonight'' ?p = 0.4"
    by (simp add: crisis_patterns_def score_before_negation_def)
  have a: "evaluate_pattern ''it is hopeless, it will never get better'' ?h = 0.238"
    using negation_dampens [OF h1 h2 h3 h4] h5 by simp
  have b: "evaluate_pattern ''i do not want to die tonight'' ?p = 0.28
           \<and> evaluate_pattern ''i do want to die tonight'' ?p = 0.4"
    using negation_dampens [OF 1 2 3 4, of "''i do want to die tonight''"] 5 6 7 by simp
  show ?thesis
    using a b h3 h4 h5 3 4 5 6 by simp
qed

text \<open>
  C4 as stated fails where the negation term is also a context modifier of the pattern:
  \<open>never\<close> is both for HOPELESSNESS, so the content with it scores
  \<open>0.7 * (0.24 + 0.1) = 0.238\<close> and the content without it \<open>0.24\<close>, not
  \<open>0.238 / 0.7\<close>.
\<close>

theorem negation_term_as_modifier_counterexample:
  "match_count ''it is hopeless, it will never get better'' (keywords_of (crisis_patterns ! 2)) = 1
   \<and> negation_found ''it is hopeless, it will never get better''
   \<and> \<not> negation_found ''it is hopeless, it will get better''
   \<and> evaluate_pattern ''it is hopeless, it will never get better'' (crisis_patterns ! 2) = 0.238
   \<and> evaluate_pattern ''it is hopeless, it will get better'' (crisis_patterns ! 2) = 0.24
   \<and> evaluate_pattern ''it is hopeless, it will never get better'' (crisis_patterns ! 2)
       \<noteq> 0.7 * evaluate_pattern ''it is hopeless, it will get better'' (crisis_patterns ! 2)"
  by (simp add: crisis_patterns_def match_count_def negation_found_def negation_patterns_def
        evaluate_pattern_def score_before_negation_def)

subsection \<open>Properties of the assessment\<close>

lemma pattern_loop_no_match:
  "\<forall>p\<in>set ps. evaluate_pattern c p = 0 \<Longrightarrow> pattern_loop c ps st = st"
proof (induction ps arbitrary: st)
  case Nil
  then show ?case by simp
next
  case (Cons p ps)
  obtain d r i where st: "st = (d, r, i)" by (cases st)
  from Cons.prems have "evaluate_pattern c p = 0"
    and rest: "\<forall>p\<in>set ps. evaluate_pattern c p = 0" by simp_all
  then show ?case
    unfolding st using Cons.IH [OF rest] by simp
qed

lemma pattern_loop_risk_nonneg:
  "0 \<le> r \<Longrightarrow> 0 \<le> fst (snd (pattern_loop c ps (d, r, i)))"
proof (induction ps arbitrary: d r i)
  case Nil
  then show ?case by simp
next
  case (Cons p ps)
  show ?case
  proof (cases "evaluate_pattern c p > 0")
    case True
    with Cons.prems have "0 \<le> r + evaluate_pattern c p" by simp
    from Cons.IH [OF this] True show ?thesis by (simp add: Let_def)
  next
    case False
    with Cons.IH [OF Cons.prems] show ?thesis by (simp add: Let_def)
  qed
qed

lemma calculate_confidence_ge_half:
  "0 \<le> risk \<Longrightarrow> 0.5 \<le> calculate_confidence content fs risk"
  by (simp add: calculate_confidence_def Let_def min_def)

lemma assess_body_fields:
  assumes "assess_body env uid content = Inr a"
  shows "0 \<le> risk_score a"
    and "confidence a = calculate_confidence content (detected_factors a) (risk_score a)"
proof -
  obtain d r i where loop: "pattern_loop (lower content) crisis_patterns ([], 0, False) = (d, r, i)"
    by (cases "pattern_loop (lower content) crisis_patterns ([], 0, False)")
  have "0 \<le> fst (snd (pattern_loop (lower content) crisis_patterns ([], 0, False)))"
    by (rule pattern_loop_risk_nonneg) simp
  with loop have r: "0 \<le> r" by simp
  from assms loop have a: "risk_score a = min r 1 \<and> detected_factors a = d
      \<and> confidence a = calculate_confidence content d (min r 1)"
    by (auto simp: assess_body_def Let_def split: if_splits sum.splits)
  show "0 \<le> risk_score a" using a r by simp
  show "confidence a = calculate_confidence content (detected_factors a) (risk_score a)"
    using a by simp
qed

lemma assess_crisis_risk_cases:
  "(\<exists>a. assess_body env uid content = Inr a \<and> assess_crisis_risk env uid content = Inr a)
   \<or> (\<exists>e. assess_body env uid content = Inl e
          \<and> assess_crisis_risk env uid content = Inr (create_safe_default_assessment uid content))"
  by (cases "assess_body env uid content") (simp_all add: assess_crisis_risk_def try_except_def)

lemma hopeless_loop:
  "pattern_loop (lower ''I feel hopeless'') crisis_patterns ([], 0, False)
     = ([HOPELESSNESS], 0.24, False)"
  by (simp add: lower_def lower_char_def crisis_patterns_def evaluate_pattern_def
        score_before_negation_def negation_found_def negation_patterns_def)

lemma hopeless_store_down:
  "assess_body store_down ''42'' ''I feel hopeless'' = Inl ''connection lost''"
  by (simp add: assess_body_def hopeless_loop determine_crisis_level_def store_crisis_event_def
        run_guarded_def store_down_def Let_def)

lemma hopeless_store_up:
  "\<exists>a. assess_body store_up ''42'' ''I feel hopeless'' = Inr a \<and> crisis_level a = MEDIUM"
  by (simp add: assess_body_def hopeless_loop determine_crisis_level_def store_crisis_event_def
        run_guarded_def store_up_def Let_def)

lemma critical_scenario_loop:
  "pattern_loop (lower ''I have a plan to end my life tonight'') crisis_patterns ([], 0, False)
     = ([SUICIDAL_IDEATION], 0.5, False)"
  by (simp add: lower_def lower_char_def crisis_patterns_def evaluate_pattern_def
        score_before_negation_def negation_found_def negation_patterns_def)

text \<open>
  C2. On the content \<open>I have a plan to end my life tonight\<close> one keyword of the
  SUICIDAL_IDEATION pattern occurs (\<open>end my life\<close>) with two context modifiers
  (\<open>plan\<close>, \<open>tonight\<close>), so the pattern score is \<open>0.3 + 0.2 = 0.5\<close>. That is
  not above the 0.7 that \<^verbatim>\<open>assess_crisis_risk\<close> asks for, so
  \<^verbatim>\<open>immediate_action_required\<close> is false, whatever the user and the store;
  with a working store the level is HIGH, escalation is needed and SUICIDAL_IDEATION is
  detected.
\<close>

theorem critical_scenario_no_immediate_action:
  "(\<exists>a. assess_crisis_risk env uid ''I have a plan to end my life tonight'' = Inr a
        \<and> \<not> immediate_action_required a)
   \<and> (\<exists>a. assess_crisis_risk store_up uid ''I have a plan to end my life tonight'' = Inr a
        \<and> crisis_level a = HIGH \<and> escalation_needed a
        \<and> SUICIDAL_IDEATION \<in> set (detected_factors a)
        \<and> risk_score a = 0.5 \<and> \<not> immediate_action_required a)"
proof -
  have any: "\<exists>a. assess_crisis_risk env uid ''I have a plan to end my life tonight'' = Inr a
        \<and> \<not> immediate_action_required a" for env
    by (cases "store_crisis_event env
                 \<lparr> user_id = uid, trigger_content = ''I have a plan to end my life tonight'',
                   crisis_level = HIGH, risk_score = 0.5,
                   detected_factors = [SUICIDAL_IDEATION],
                   confidence = calculate_confidence ''I have a plan to end my life tonight''
                                  [SUICIDAL_IDEATION] 0.5,
                   immediate_action_required = False,
                   recommended_interventions = generate_interventions HIGH [SUICIDAL_IDEATION],
                   safety_resources = get_relevant_resources HIGH [SUICIDAL_IDEATION],
                   escalation_needed = True \<rparr>")
       (simp_all add: assess_crisis_risk_def try_except_def assess_body_def critical_scenario_loop
          determine_crisis_level_def Let_def create_safe_default_assessment_def)
  have up: "\<exists>a. assess_crisis_risk store_up uid ''I have a plan to end my life tonight'' = Inr a
        \<and> crisis_level a = HIGH \<and> escalation_needed a
        \<and> SUICIDAL_IDEATION \<in> set (detected_factors a)
        \<and> risk_score a = 0.5 \<and> \<not> immediate_action_required a"
    by (simp add: assess_crisis_risk_def try_except_def assess_body_def critical_scenario_loop
          determine_crisis_level_def Let_def store_crisis_event_def run_guarded_def store_up_def)
  show ?thesis using any up by blast
qed

text \<open>
  C5. When no keyword of any catalog pattern occurs in the lower-cased content, the
  assessment has level NONE, risk score 0.0 and no detected factor, and every pattern
  score is 0: context modifiers and negation terms alone score nothing.
\<close>

theorem no_keyword_no_risk:
  assumes "\<forall>p\<in>set crisis_patterns. \<forall>k\<in>set (keywords_of p). \<not> str_in k (lower content)"
  shows "(\<exists>a. assess_crisis_risk env uid content = Inr a
             \<and> crisis_level a = NONE \<and> risk_score a = 0 \<and> detected_factors a = [])
         \<and> (\<forall>p\<in>set crisis_patterns. evaluate_pattern (lower content) p = 0)"
proof -
  have zero: "\<forall>p\<in>set crisis_patterns. evaluate_pattern (lower content) p = 0"
  proof
    fix p assume p: "p \<in> set crisis_patterns"
    with assms have "filter (\<lambda>k. str_in k (lower content)) (keywords_of p) = []"
      by (simp add: filter_empty_conv)
    then have "match_count (lower content) (keywords_of p) = 0"
      by (simp add: match_count_def)
    then show "evaluate_pattern (lower content) p = 0"
      by (rule evaluate_pattern_no_match)
  qed
  have loop: "pattern_loop (lower content) crisis_patterns ([], 0, False) = ([], 0, False)"
    by (rule pattern_loop_no_match [OF zero])
  have "\<exists>a. assess_crisis_risk env uid content = Inr a
             \<and> crisis_level a = NONE \<and> risk_score a = 0 \<and> detected_factors a = []"
    by (simp add: assess_crisis_risk_def try_except_def assess_body_def loop
          determine_crisis_level_def Let_def)
  with zero show ?thesis by blast
qed

theorem no_keyword_no_risk_witness:
  "map (\<lambda>p. match_count (lower ''The weather is not nice today'') (keywords_of p))
       crisis_patterns = [0, 0, 0, 0, 0, 0, 0]
   \<and> negation_found (lower ''The weather is not nice today'')
   \<and> str_in ''today'' (lower ''The weather is not nice today'')
   \<and> (\<exists>a. assess_crisis_risk store_down ''42'' ''The weather is not nice today'' = Inr a
          \<and> crisis_level a = NONE \<and> risk_score a = 0 \<and> detected_factors a = [])"
proof -
  have h: "\<forall>p\<in>set crisis_patterns. \<forall>k\<in>set (keywords_of p).
             \<not> str_in k (lower ''The weather is not nice today'')"
    by (simp add: crisis_patterns_def lower_def lower_char_def)
  have c: "map (\<lambda>p. match_count (lower ''The weather is not nice today'') (keywords_of p))
             crisis_patterns = [0, 0, 0, 0, 0, 0, 0]"
    by (simp add: crisis_patterns_def match_count_def lower_def lower_char_def)
  have n: "negation_found (lower ''The weather is not nice today'')"
    and m: "str_in ''today'' (lower ''The weather is not nice today'')"
    by (simp_all add: negation_found_def negation_patterns_def lower_def lower_char_def)
  show ?thesis
    using no_keyword_no_risk [OF h, of store_down "''42''"] c n m by blast
qed

text \<open>
  C6. \<^verbatim>\<open>assess_crisis_risk\<close> returns an assessment for every string content,
  every user and every behaviour of the store; whenever a step inside its
  \<^verbatim>\<open>try\<close> block raises, the assessment returned is the safe default: level
  NONE, risk score 0.0, no escalation, and the 988 lifeline as only resource.
\<close>

theorem assess_never_raises:
  "(\<exists>a. assess_crisis_risk env uid content = Inr a)
   \<and> (\<forall>e. assess_body env uid content = Inl e \<longrightarrow>
         (\<exists>a. assess_crisis_risk env uid content = Inr a
              \<and> a = create_safe_default_assessment uid content
              \<and> crisis_level a = NONE \<and> risk_score a = 0 \<and> \<not> escalation_needed a
              \<and> map rd_name (safety_resources a) = [''988 Suicide & Crisis Lifeline'']))"
  using assess_crisis_risk_cases [of env uid content]
  by (auto simp: create_safe_default_assessment_def)

theorem assess_never_raises_witness:
  "assess_body store_down ''42'' ''I feel hopeless'' = Inl ''connection lost''
   \<and> assess_crisis_risk store_down ''42'' ''I feel hopeless''
       = Inr (create_safe_default_assessment ''42'' ''I feel hopeless'')
   \<and> (\<exists>a. assess_crisis_risk store_down ''42'' [] = Inr a)"
  using assess_never_raises [of store_down "''42''" "''I feel hopeless''"]
        assess_never_raises [of store_down "''42''" "[]"]
        hopeless_store_down
  by simp

text \<open>
  C10. Every assessment that the \<^verbatim>\<open>try\<close> block of
  \<^verbatim>\<open>assess_crisis_risk\<close> produces has confidence at least 0.5; an assessment
  returned with a confidence below 0.5 is the safe default of the error path, with
  confidence 0.0.
\<close>

theorem confidence_at_least_half:
  "(\<forall>a. assess_body env uid content = Inr a \<longrightarrow>
        assess_crisis_risk env uid content = Inr a \<and> 0.5 \<le> confidence a)
   \<and> (\<forall>a. assess_crisis_risk env uid content = Inr a \<and> confidence a < 0.5 \<longrightarrow>
        a = create_safe_default_assessment uid content \<and> confidence a = 0
        \<and> (\<exists>e. assess_body env uid content = Inl e))"
proof -
  have ok: "assess_crisis_risk env uid content = Inr a \<and> 0.5 \<le> confidence a"
    if "assess_body env uid content = Inr a" for a
    using that assess_body_fields [OF that] calculate_confidence_ge_half
    by (simp add: assess_crisis_risk_def try_except_def)
  have low: "a = create_safe_default_assessment uid content \<and> confidence a = 0
             \<and> (\<exists>e. assess_body env uid content = Inl e)"
    if "assess_crisis_risk env uid content = Inr a" and "confidence a < 0.5" for a
  proof (cases "assess_body env uid content")
    case (Inl e)
    with that(1) show ?thesis
      by (auto simp: assess_crisis_risk_def try_except_def create_safe_default_assessment_def)
  next
    case (Inr b)
    with that(1) have "a = b" by (simp add: assess_crisis_risk_def try_except_def)
    with ok [OF Inr] that(2) show ?thesis by simp
  qed
  show ?thesis using ok low by blast
qed

theorem confidence_at_least_half_witness:
  "(\<exists>a. assess_crisis_risk store_up ''42'' ''I feel hopeless'' = Inr a \<and> 0.5 \<le> confidence a)
   \<and> (\<exists>a. assess_crisis_risk store_down ''42'' ''I feel hopeless'' = Inr a \<and> confidence a = 0)"
proof -
  from hopeless_store_up obtain a where a: "assess_body store_up ''42'' ''I feel hopeless'' = Inr a"
    by blast
  have 1: "assess_crisis_risk store_up ''42'' ''I feel hopeless'' = Inr a \<and> 0.5 \<le> confidence a"
    using confidence_at_least_half [of store_up "''42''" "''I feel hopeless''"] a by blast
  have 2: "assess_crisis_risk store_down ''42'' ''I feel hopeless''
             = Inr (create_safe_default_assessment ''42'' ''I feel hopeless'')"
    using hopeless_store_down by (simp add: assess_crisis_risk_def try_except_def)
  show ?thesis
    using 1 2 by (simp add: create_safe_default_assessment_def)
qed

subsection \<open>Properties of the escalation\<close>

text \<open>
  When the update of the event store returns, \<^verbatim>\<open>escalate_crisis\<close> answers
  \<open>escalated: True\<close>; for a HIGH assessment the actions contain
  \<open>Crisis counselor assigned\<close> and the next steps are not empty; for an assessment
  that is neither HIGH nor CRITICAL both lists are empty.
\<close>

lemma escalate_crisis_update_returns:
  assumes "update_crisis_event_escalation env (user_id a) = Inr ()"
  shows "\<exists>d. escalate_crisis env a t = Inr d
     \<and> dict_get d ''escalated'' = Some (PyBool True)
     \<and> (crisis_level a = HIGH \<longrightarrow>
          (\<exists>acts steps. dict_get d ''actions_taken'' = Some (PyList acts)
              \<and> ''Crisis counselor assigned'' \<in> set acts
              \<and> dict_get d ''next_steps'' = Some (PyList steps) \<and> steps \<noteq> []))
     \<and> (crisis_level a \<noteq> HIGH \<and> crisis_level a \<noteq> CRITICAL \<longrightarrow>
          dict_get d ''actions_taken'' = Some (PyList [])
          \<and> dict_get d ''next_steps'' = Some (PyList []))"
  using assms
  by (simp add: escalate_crisis_def escalate_body_def try_except_def Let_def dict_get_def)

lemma update_returns_store_up: "update_crisis_event_escalation store_up uid = Inr ()"
  by (simp add: update_crisis_event_escalation_def run_guarded_def store_up_def)

text \<open>
  C9. The call of the repository's escalation test, a HIGH assessment escalated as
  \<open>professional\<close>. With a working store the answer is the one the claim and the test
  expect. With the store down the lookup in \<^verbatim>\<open>_update_crisis_event_escalation\<close>
  raises, its handler logs and calls \<^verbatim>\<open>db.session.rollback()\<close> outside any
  \<^verbatim>\<open>try\<close>, that call raises as well, and \<^verbatim>\<open>escalate_crisis\<close>
  answers \<open>escalated: False\<close> without actions or next steps.
\<close>

theorem escalate_crisis_high_store_down:
  "crisis_level high_assessment = HIGH
   \<and> escalate_crisis store_down high_assessment ''professional''
       = Inr [(''escalated'', PyBool False), (''error'', PyStr ''connection lost'')]
   \<and> dict_get [(''escalated'', PyBool False), (''error'', PyStr ''connection lost'')] ''escalated''
       = Some (PyBool False)
   \<and> dict_get [(''escalated'', PyBool False), (''error'', PyStr ''connection lost'')]
         ''actions_taken'' = None
   \<and> dict_get [(''escalated'', PyBool False), (''error'', PyStr ''connection lost'')]
         ''next_steps'' = None
   \<and> (\<exists>d acts steps. escalate_crisis store_up high_assessment ''professional'' = Inr d
          \<and> dict_get d ''escalated'' = Some (PyBool True)
          \<and> dict_get d ''actions_taken'' = Some (PyList acts)
          \<and> ''Crisis counselor assigned'' \<in> set acts
          \<and> dict_get d ''next_steps'' = Some (PyList steps) \<and> steps \<noteq> [])"
proof -
  have h: "crisis_level high_assessment = HIGH"
    by (simp add: high_assessment_def)
  have down: "escalate_crisis store_down high_assessment ''professional''
                = Inr [(''escalated'', PyBool False), (''error'', PyStr ''connection lost'')]"
    by (simp add: high_assessment_def escalate_crisis_def escalate_body_def try_except_def
          Let_def update_crisis_event_escalation_def run_guarded_def store_down_def)
  have up: "\<exists>d acts steps. escalate_crisis store_up high_assessment ''professional'' = Inr d
          \<and> dict_get d ''escalated'' = Some (PyBool True)
          \<and> dict_get d ''actions_taken'' = Some (PyList acts)
          \<and> ''Crisis counselor assigned'' \<in> set acts
          \<and> dict_get d ''next_steps'' = Some (PyList steps) \<and> steps \<noteq> []"
    using escalate_crisis_update_returns [OF update_returns_store_up, of high_assessment "''professional''"] h
    by blast
  show ?thesis
    using h down up by (simp add: dict_get_def)
qed

end
